theory Spec2Isabelle
  imports Main "HOL-Library.Word"
begin

unbundle bit_operations_syntax

section \<open>Machine integers and register blocks\<close>

type_synonym uint32_t = "32 word"
type_synonym uint8_t = "8 word"

text \<open>
  Pointers (to a DMA controller, to a channel register block, to a callback function)
  are addresses, modelled as natural numbers; a null function pointer is \<open>None\<close>.
\<close>

type_synonym addr = nat

text \<open>
  Modelled from the spec: the device header that declares \<open>DMA_TypeDef\<close>,
  \<open>DMA_Channel_TypeDef\<close> and the \<open>DMA_CCR_*\<close> and \<open>DMA_ISR_*\<close> bit constants is not part
  of the sources at hand. The register roles are those of section 6 of the specification
  (peripheral address, memory address, transaction count, control, shared status, shared
  clear-flags). The bit positions follow section 4.3: the three status bits lie inside the
  mask \<open>0x0E\<close>, every interrupt-enable bit of the control register has the position of its
  status bit, and the priority field starts at bit 12 (\<open>STM32_DMA_CR_PL\<close>). Within these
  constraints the values are those of the register layout of the device family: enable at
  bit 0, transfer complete, half transfer and transfer error at bits 1, 2 and 3, then
  direction, circular mode, peripheral increment and memory increment at bits 4 to 7, and
  memory-to-memory at bit 14. The general theorems below do not depend on the values.
\<close>

record DMA_TypeDef =
  ISR :: uint32_t
  IFCR :: uint32_t

record DMA_Channel_TypeDef =
  CCR :: uint32_t
  CNDTR :: uint32_t
  CPAR :: uint32_t
  CMAR :: uint32_t

definition DMA_CCR_EN :: uint32_t where "DMA_CCR_EN = 0x1"
definition DMA_CCR_TCIE :: uint32_t where "DMA_CCR_TCIE = 0x2"
definition DMA_CCR_HTIE :: uint32_t where "DMA_CCR_HTIE = 0x4"
definition DMA_CCR_TEIE :: uint32_t where "DMA_CCR_TEIE = 0x8"
definition DMA_CCR_DIR :: uint32_t where "DMA_CCR_DIR = 0x10"
definition DMA_CCR_CIRC :: uint32_t where "DMA_CCR_CIRC = 0x20"
definition DMA_CCR_PINC :: uint32_t where "DMA_CCR_PINC = 0x40"
definition DMA_CCR_MINC :: uint32_t where "DMA_CCR_MINC = 0x80"
definition DMA_CCR_MEM2MEM :: uint32_t where "DMA_CCR_MEM2MEM = 0x4000"

definition DMA_ISR_TCIF1 :: uint32_t where "DMA_ISR_TCIF1 = 0x2"
definition DMA_ISR_HTIF1 :: uint32_t where "DMA_ISR_HTIF1 = 0x4"
definition DMA_ISR_TEIF1 :: uint32_t where "DMA_ISR_TEIF1 = 0x8"

section \<open>Driver constants (stm32_dma.h)\<close>

definition STM32_DMA_ISR_MASK :: uint32_t where
  "STM32_DMA_ISR_MASK = 0x0E"

definition STM32_DMA_ISR_SHIFT :: "uint32_t \<Rightarrow> uint32_t" where
  "STM32_DMA_ISR_SHIFT stream = (stream - 1) * 4"

definition STM32_DMA_IS_VALID_PRIORITY :: "uint32_t \<Rightarrow> bool" where
  "STM32_DMA_IS_VALID_PRIORITY prio \<longleftrightarrow> prio \<ge> 0 \<and> prio \<le> 3"

definition STM32_DMA_CR_EN :: uint32_t where "STM32_DMA_CR_EN = DMA_CCR_EN"
definition STM32_DMA_CR_TEIE :: uint32_t where "STM32_DMA_CR_TEIE = DMA_CCR_TEIE"
definition STM32_DMA_CR_HTIE :: uint32_t where "STM32_DMA_CR_HTIE = DMA_CCR_HTIE"
definition STM32_DMA_CR_TCIE :: uint32_t where "STM32_DMA_CR_TCIE = DMA_CCR_TCIE"
definition STM32_DMA_CR_DIR_M2M :: uint32_t where "STM32_DMA_CR_DIR_M2M = DMA_CCR_MEM2MEM"
definition STM32_DMA_CR_PINC :: uint32_t where "STM32_DMA_CR_PINC = DMA_CCR_PINC"
definition STM32_DMA_CR_MINC :: uint32_t where "STM32_DMA_CR_MINC = DMA_CCR_MINC"

definition STM32_DMA_ISR_TEIF :: uint32_t where "STM32_DMA_ISR_TEIF = DMA_ISR_TEIF1"
definition STM32_DMA_ISR_HTIF :: uint32_t where "STM32_DMA_ISR_HTIF = DMA_ISR_HTIF1"
definition STM32_DMA_ISR_TCIF :: uint32_t where "STM32_DMA_ISR_TCIF = DMA_ISR_TCIF1"

section \<open>Driver data structures\<close>

record stm32_dma_stream_t =
  dma :: addr
  channel :: addr
  cmask :: uint32_t
  mux :: addr
  shift :: uint8_t
  selfindex :: uint8_t
  vector :: uint8_t

text \<open>
  One entry of the redirection table \<open>_stm32_dma_isr_redir\<close>, with the two fields the
  dispatcher reads.
\<close>

record dma_isr_redir_t =
  dma_func :: "addr option"
  dma_param :: uint32_t

section \<open>The machine: register store, redirection table, trace\<close>

text \<open>
  Every store to a device register and every callback invocation is an event; the trace
  lists the events in program order. The body of a callback is client code: the trace
  records the call and its two arguments.
\<close>

datatype event =
    Write_CPAR addr uint32_t
  | Write_CMAR addr uint32_t
  | Write_CNDTR addr uint32_t
  | Write_CCR addr uint32_t
  | Write_IFCR addr uint32_t
  | Callback addr uint32_t uint32_t

record machine =
  dma_mem :: "addr \<Rightarrow> DMA_TypeDef"
  channel_mem :: "addr \<Rightarrow> DMA_Channel_TypeDef"
  stm32_dma_isr_redir :: "dma_isr_redir_t list"
  irq_priority :: "uint8_t \<Rightarrow> uint32_t"
  trace :: "event list"

definition emit :: "event \<Rightarrow> machine \<Rightarrow> machine" where
  "emit e s = s\<lparr>trace := trace s @ [e]\<rparr>"

definition write_CPAR :: "addr \<Rightarrow> uint32_t \<Rightarrow> machine \<Rightarrow> machine" where
  "write_CPAR c v s =
     emit (Write_CPAR c v) (s\<lparr>channel_mem := (channel_mem s)(c := (channel_mem s c)\<lparr>CPAR := v\<rparr>)\<rparr>)"

definition write_CMAR :: "addr \<Rightarrow> uint32_t \<Rightarrow> machine \<Rightarrow> machine" where
  "write_CMAR c v s =
     emit (Write_CMAR c v) (s\<lparr>channel_mem := (channel_mem s)(c := (channel_mem s c)\<lparr>CMAR := v\<rparr>)\<rparr>)"

definition write_CNDTR :: "addr \<Rightarrow> uint32_t \<Rightarrow> machine \<Rightarrow> machine" where
  "write_CNDTR c v s =
     emit (Write_CNDTR c v) (s\<lparr>channel_mem := (channel_mem s)(c := (channel_mem s c)\<lparr>CNDTR := v\<rparr>)\<rparr>)"

definition write_CCR :: "addr \<Rightarrow> uint32_t \<Rightarrow> machine \<Rightarrow> machine" where
  "write_CCR c v s =
     emit (Write_CCR c v) (s\<lparr>channel_mem := (channel_mem s)(c := (channel_mem s c)\<lparr>CCR := v\<rparr>)\<rparr>)"

text \<open>
  Modelled from the spec: the reaction of the hardware to a store to the clear-flags
  register, which no source file describes. The register is write-only and mirrors the
  layout of the status register (section 6); writing a bit acknowledges, that is clears,
  the status bit at the same position (sections 4.2 and 4.3).
\<close>

definition write_IFCR :: "addr \<Rightarrow> uint32_t \<Rightarrow> machine \<Rightarrow> machine" where
  "write_IFCR d v s =
     emit (Write_IFCR d v)
       (s\<lparr>dma_mem := (dma_mem s)(d := (dma_mem s d)\<lparr>ISR := ISR (dma_mem s d) AND NOT v, IFCR := v\<rparr>)\<rparr>)"

text \<open>The events a piece of code adds to the trace of the state it started from.\<close>

definition new_events :: "machine \<Rightarrow> machine \<Rightarrow> event list" where
  "new_events s s' = drop (length (trace s)) (trace s')"

text \<open>The stores to a clear-flags register: controller and value, in program order.\<close>

fun ifcr_writes :: "event list \<Rightarrow> (addr \<times> uint32_t) list" where
  "ifcr_writes [] = []"
| "ifcr_writes (Write_IFCR d v # es) = (d, v) # ifcr_writes es"
| "ifcr_writes (_ # es) = ifcr_writes es"

text \<open>The callback invocations: function, parameter and flags, in program order.\<close>

fun callbacks :: "event list \<Rightarrow> (addr \<times> uint32_t \<times> uint32_t) list" where
  "callbacks [] = []"
| "callbacks (Callback f p fl # es) = (f, p, fl) # callbacks es"
| "callbacks (_ # es) = callbacks es"

section \<open>Macro functions (stm32_dma.h)\<close>

definition dmaStreamSetPeripheral :: "stm32_dma_stream_t \<Rightarrow> uint32_t \<Rightarrow> machine \<Rightarrow> machine" where
  "dmaStreamSetPeripheral dmastp a s = write_CPAR (channel dmastp) a s"

definition dmaStreamSetMemory0 :: "stm32_dma_stream_t \<Rightarrow> uint32_t \<Rightarrow> machine \<Rightarrow> machine" where
  "dmaStreamSetMemory0 dmastp a s = write_CMAR (channel dmastp) a s"

definition dmaStreamSetTransactionSize :: "stm32_dma_stream_t \<Rightarrow> uint32_t \<Rightarrow> machine \<Rightarrow> machine" where
  "dmaStreamSetTransactionSize dmastp sz s = write_CNDTR (channel dmastp) sz s"

definition dmaStreamGetTransactionSize :: "stm32_dma_stream_t \<Rightarrow> machine \<Rightarrow> uint32_t" where
  "dmaStreamGetTransactionSize dmastp s = CNDTR (channel_mem s (channel dmastp))"

definition dmaStreamSetMode :: "stm32_dma_stream_t \<Rightarrow> uint32_t \<Rightarrow> machine \<Rightarrow> machine" where
  "dmaStreamSetMode dmastp mode s = write_CCR (channel dmastp) mode s"

definition dmaStreamEnable :: "stm32_dma_stream_t \<Rightarrow> machine \<Rightarrow> machine" where
  "dmaStreamEnable dmastp s =
     write_CCR (channel dmastp) (CCR (channel_mem s (channel dmastp)) OR STM32_DMA_CR_EN) s"

text \<open>
  \<open>STM32_DMA_ISR_MASK << (dmastp)->shift\<close> is a shift of a 32-bit pattern, stored to a
  32-bit register: bits pushed beyond bit 31 are lost. C leaves a shift by 32 or more
  undefined, so the theorems about shifted values assume \<open>unat (shift dmastp) < 32\<close>.
\<close>

definition dmaStreamClearInterrupt :: "stm32_dma_stream_t \<Rightarrow> machine \<Rightarrow> machine" where
  "dmaStreamClearInterrupt dmastp s =
     write_IFCR (dma dmastp) (push_bit (unat (shift dmastp)) STM32_DMA_ISR_MASK) s"

definition dmaStreamDisable :: "stm32_dma_stream_t \<Rightarrow> machine \<Rightarrow> machine" where
  "dmaStreamDisable dmastp s =
     dmaStreamClearInterrupt dmastp
       (write_CCR (channel dmastp)
          (CCR (channel_mem s (channel dmastp)) AND
             NOT (STM32_DMA_CR_TCIE OR STM32_DMA_CR_HTIE OR STM32_DMA_CR_TEIE OR STM32_DMA_CR_EN))
          s)"

definition dmaStartMemCopy ::
  "stm32_dma_stream_t \<Rightarrow> uint32_t \<Rightarrow> uint32_t \<Rightarrow> uint32_t \<Rightarrow> uint32_t \<Rightarrow> machine \<Rightarrow> machine" where
  "dmaStartMemCopy dmastp mode src dst n s =
     dmaStreamSetMode dmastp
       (mode OR STM32_DMA_CR_MINC OR STM32_DMA_CR_PINC OR STM32_DMA_CR_DIR_M2M OR STM32_DMA_CR_EN)
       (dmaStreamSetTransactionSize dmastp n
          (dmaStreamSetMemory0 dmastp dst
             (dmaStreamSetPeripheral dmastp src s)))"

text \<open>
  The polling loop of \<open>dmaWaitCompletion\<close>. The transaction-count register is volatile:
  \<open>hw\<close> is what the hardware does to the machine between two consecutive reads. A loop
  that never sees zero never returns: the value is \<open>None\<close>.
\<close>

partial_function (option) dmaWaitCompletion ::
  "(machine \<Rightarrow> machine) \<Rightarrow> stm32_dma_stream_t \<Rightarrow> machine \<Rightarrow> machine option" where
  "dmaWaitCompletion hw dmastp s =
     (if CNDTR (channel_mem s (channel dmastp)) > 0
      then dmaWaitCompletion hw dmastp (hw s)
      else Some (dmaStreamDisable dmastp s))"

text \<open>
  The dispatcher. The status register is read once, before the store to the clear-flags
  register. The redirection table is read at the self-index of the stream; C leaves a read
  beyond the table undefined, so the theorems about the entry assume the index inside the
  table.
\<close>

definition dmaServeInterrupt :: "stm32_dma_stream_t \<Rightarrow> machine \<Rightarrow> machine" where
  "dmaServeInterrupt dmastp s =
     (let idx = (ucast (selfindex dmastp) :: uint32_t);
          flags = drop_bit (unat (shift dmastp)) (ISR (dma_mem s (dma dmastp))) AND STM32_DMA_ISR_MASK
      in if flags AND CCR (channel_mem s (channel dmastp)) \<noteq> 0 then
           (let s1 = write_IFCR (dma dmastp) (push_bit (unat (shift dmastp)) flags) s
            in case dma_func (stm32_dma_isr_redir s1 ! unat idx) of
                 Some f \<Rightarrow> emit (Callback f (dma_param (stm32_dma_isr_redir s1 ! unat idx)) flags) s1
               | None \<Rightarrow> s1)
         else s)"

text \<open>
  The value of the local variable \<open>flags\<close> of \<open>dmaServeInterrupt\<close>: the status register
  shifted down by the offset of the stream and masked to the three status bits.
\<close>

definition isr_flags :: "stm32_dma_stream_t \<Rightarrow> machine \<Rightarrow> uint32_t" where
  "isr_flags dmastp s =
     drop_bit (unat (shift dmastp)) (ISR (dma_mem s (dma dmastp))) AND STM32_DMA_ISR_MASK"

section \<open>Stream allocation (stm32_dma.c)\<close>

text \<open>
  Modelled from the spec: \<open>dmaStreamAllocate\<close> is declared in the header and defined in
  \<open>stm32_dma.c\<close>, which is not part of the sources at hand. Section 4.1: a priority
  outside the valid range fails with \<open>InvalidPriority\<close>; otherwise the descriptor table is
  scanned in table order for the first free stream (free: the callback of its redirection
  entry is null); with none the call fails with \<open>ResourceExhausted\<close> and changes nothing;
  on success the callback and its parameter are installed in the redirection entry, the
  priority of the owning interrupt vector is configured and the descriptor is returned.
\<close>

datatype dma_error = InvalidPriority | ResourceExhausted

definition stream_free :: "machine \<Rightarrow> stm32_dma_stream_t \<Rightarrow> bool" where
  "stream_free s d \<longleftrightarrow>
     unat (selfindex d) < length (stm32_dma_isr_redir s) \<and>
     dma_func (stm32_dma_isr_redir s ! unat (selfindex d)) = None"

definition dmaStreamAllocate ::
  "stm32_dma_stream_t list \<Rightarrow> uint32_t \<Rightarrow> addr \<Rightarrow> uint32_t \<Rightarrow> machine
     \<Rightarrow> dma_error + (stm32_dma_stream_t \<times> machine)" where
  "dmaStreamAllocate streams priority func param s =
     (if \<not> STM32_DMA_IS_VALID_PRIORITY priority then Inl InvalidPriority
      else case find (stream_free s) streams of
             None \<Rightarrow> Inl ResourceExhausted
           | Some d \<Rightarrow>
               Inr (d, s\<lparr>stm32_dma_isr_redir :=
                            (stm32_dma_isr_redir s)
                              [unat (selfindex d) := \<lparr>dma_func = Some func, dma_param = param\<rparr>],
                          irq_priority := (irq_priority s)(vector d := priority)\<rparr>))"

section \<open>Platform hooks (cfe_psp_chibios.c)\<close>

text \<open>
  Modelled from the spec: \<open>chSysHalt\<close> belongs to the kernel, which is not part of the
  sources at hand. Sections 1 and 7: the halt accepts an opaque code, halts permanently and
  never returns. It is the loop that never ends, so its value is \<open>None\<close>.
\<close>

partial_function (option) chSysHalt :: "uint32_t \<Rightarrow> 'sys \<Rightarrow> 'sys option" where
  "chSysHalt reason s = chSysHalt reason s"

text \<open>
  \<open>CFE_PSP_Restart\<close> discards its argument and returns. \<open>CFE_PSP_Panic\<close> passes the
  error code, an \<open>int32\<close> whose bits are cast to a pointer, to \<open>chSysHalt\<close>. A call that
  returns yields \<open>Some\<close> of the state it leaves.
\<close>

definition CFE_PSP_Restart :: "uint32_t \<Rightarrow> 'sys \<Rightarrow> 'sys option" where
  "CFE_PSP_Restart reset_type s = Some s"

definition CFE_PSP_Panic :: "uint32_t \<Rightarrow> 'sys \<Rightarrow> 'sys option" where
  "CFE_PSP_Panic ErrorCode s = chSysHalt ErrorCode s"

section \<open>The dispatcher as the specification words it\<close>

text \<open>
  Section 8 of the specification: the dispatcher acknowledges exactly the status bits it
  observed as enabled-and-set, and reports no status bit whose enable bit is clear. These
  are the status bits of the stream, aligned to bit zero, that are set in the status
  register and whose enable bit is set in the control register.
\<close>

definition spec_enabled_and_set :: "stm32_dma_stream_t \<Rightarrow> machine \<Rightarrow> uint32_t" where
  "spec_enabled_and_set dmastp s =
     (drop_bit (unat (shift dmastp)) (ISR (dma_mem s (dma dmastp))) AND STM32_DMA_ISR_MASK) AND
     CCR (channel_mem s (channel dmastp))"

text \<open>
  The clear-flags value of \<open>dmaStreamClearInterrupt\<close> as section 4.2 words it: the status
  bits of the stream, written back at the shift offset of the stream.
\<close>

definition spec_status_written_back :: "stm32_dma_stream_t \<Rightarrow> machine \<Rightarrow> uint32_t" where
  "spec_status_written_back dmastp s =
     push_bit (unat (shift dmastp))
       (drop_bit (unat (shift dmastp)) (ISR (dma_mem s (dma dmastp))) AND STM32_DMA_ISR_MASK)"

section \<open>Concrete machines\<close>

text \<open>
  Stream 2 of controller 0: status bits at offset 4, redirection entry 1. Transfer error
  and transfer complete of stream 2 are pending (and transfer complete of stream 1), only
  the transfer-complete interrupt is enabled, and a callback is registered.
\<close>

definition ex_stream :: stm32_dma_stream_t where
  "ex_stream = \<lparr>dma = 0, channel = 1, cmask = 0x2, mux = 1, shift = 4, selfindex = 1, vector = 12\<rparr>"

definition ex_machine :: machine where
  "ex_machine =
     \<lparr>dma_mem = (\<lambda>_. \<lparr>ISR = 0xA2, IFCR = 0\<rparr>),
      channel_mem = (\<lambda>_. \<lparr>CCR = 0x2, CNDTR = 0, CPAR = 0, CMAR = 0\<rparr>),
      stm32_dma_isr_redir =
        [\<lparr>dma_func = None, dma_param = 0\<rparr>, \<lparr>dma_func = Some 0x08001234, dma_param = 0x20000010\<rparr>],
      irq_priority = (\<lambda>_. 0),
      trace = []\<rparr>"

text \<open>Stream 1 of the same controller: offset 0, redirection entry 0, no callback.\<close>

definition ex_free_stream :: stm32_dma_stream_t where
  "ex_free_stream = \<lparr>dma = 0, channel = 0, cmask = 0x1, mux = 0, shift = 0, selfindex = 0, vector = 11\<rparr>"

text \<open>The same machine with only the half-transfer interrupt enabled, and none pending.\<close>

definition ex_masked :: machine where
  "ex_masked = ex_machine\<lparr>channel_mem := (\<lambda>_. \<lparr>CCR = 0x4, CNDTR = 0, CPAR = 0, CMAR = 0\<rparr>)\<rparr>"

text \<open>
  A transfer engine for channel 1: between two reads of the transaction-count register it
  moves one data unit, while any remain.
\<close>

definition ex_hw :: "machine \<Rightarrow> machine" where
  "ex_hw s =
     (if CNDTR (channel_mem s 1) = 0 then s
      else s\<lparr>channel_mem := (channel_mem s)(1 := (channel_mem s 1)\<lparr>CNDTR := CNDTR (channel_mem s 1) - 1\<rparr>)\<rparr>)"

text \<open>
  The scenario of section 8: a copy of 100 data units started on stream 2.
\<close>

definition ex_copying :: machine where
  "ex_copying = dmaStartMemCopy ex_stream 0 0x20000000 0x20000400 100 ex_machine"

text \<open>The descriptor table of the two streams, in table order.\<close>

definition ex_streams :: "stm32_dma_stream_t list" where
  "ex_streams = [ex_free_stream, ex_stream]"

section \<open>Facts about words, the register store and the trace\<close>

lemma bit_0E: "bit (0x0E :: uint32_t) k \<longleftrightarrow> k = 1 \<or> k = 2 \<or> k = 3"
proof -
  have e: "(0x0E :: uint32_t) = push_bit 1 (mask 3)"
    by (simp add: mask_eq_exp_minus_1)
  have "bit (push_bit 1 (mask 3) :: uint32_t) k \<longleftrightarrow> k = 1 \<or> k = 2 \<or> k = 3"
    unfolding bit_push_bit_iff bit_mask_iff by (auto simp: possible_bit_word)
  then show ?thesis unfolding e .
qed

lemma reshift_flags:
  "push_bit n (drop_bit n x AND STM32_DMA_ISR_MASK) = x AND push_bit n STM32_DMA_ISR_MASK"
  unfolding STM32_DMA_ISR_MASK_def
  by (rule bit_word_eqI) (auto simp: bit_simps bit_0E)

lemma and_not_and: "(x AND NOT m) AND m = (0 :: uint32_t)"
  by (rule bit_word_eqI) (auto simp: bit_simps)

lemma trace_emit: "trace (emit e s) = trace s @ [e]"
  by (simp add: emit_def)

lemma new_events_append: "trace s' = trace s @ es \<Longrightarrow> new_events s s' = es"
  by (simp add: new_events_def)

lemma trace_write_CCR: "trace (write_CCR c v s) = trace s @ [Write_CCR c v]"
  by (simp add: write_CCR_def emit_def)

lemma trace_write_IFCR: "trace (write_IFCR d v s) = trace s @ [Write_IFCR d v]"
  by (simp add: write_IFCR_def emit_def)

lemma redir_write_IFCR: "stm32_dma_isr_redir (write_IFCR d v s) = stm32_dma_isr_redir s"
  by (simp add: write_IFCR_def emit_def)

lemma channel_mem_write_IFCR: "channel_mem (write_IFCR d v s) = channel_mem s"
  by (simp add: write_IFCR_def emit_def)

lemma ISR_write_IFCR: "ISR (dma_mem (write_IFCR d v s) d) = ISR (dma_mem s d) AND NOT v"
  by (simp add: write_IFCR_def emit_def)

lemma CCR_write_CCR: "CCR (channel_mem (write_CCR c v s) c) = v"
  by (simp add: write_CCR_def emit_def)

lemma dma_mem_write_CCR: "dma_mem (write_CCR c v s) = dma_mem s"
  by (simp add: write_CCR_def emit_def)

lemma CNDTR_write_CCR: "CNDTR (channel_mem (write_CCR c v s) c') = CNDTR (channel_mem s c')"
  by (simp add: write_CCR_def emit_def)

lemma unat_idx: "unat (ucast (i :: uint8_t) :: uint32_t) = unat i"
proof -
  have "unat i < 2 ^ 8" using unsigned_less [of i] by simp
  then have "unat i < 2 ^ 32" by simp
  then show ?thesis by (simp add: unsigned_ucast_eq take_bit_nat_eq_self)
qed

lemma dmaServeInterrupt_events:
  "new_events s (dmaServeInterrupt dmastp s) =
     (if isr_flags dmastp s AND CCR (channel_mem s (channel dmastp)) \<noteq> 0
      then Write_IFCR (dma dmastp) (push_bit (unat (shift dmastp)) (isr_flags dmastp s)) #
           (case dma_func (stm32_dma_isr_redir s ! unat (selfindex dmastp)) of
              Some f \<Rightarrow> [Callback f (dma_param (stm32_dma_isr_redir s ! unat (selfindex dmastp)))
                           (isr_flags dmastp s)]
            | None \<Rightarrow> [])
      else [])"
  by (simp add: dmaServeInterrupt_def isr_flags_def Let_def new_events_def trace_write_IFCR
      trace_emit redir_write_IFCR unat_idx split: option.split)

lemma dmaServeInterrupt_state:
  "dmaServeInterrupt dmastp s =
     (if isr_flags dmastp s AND CCR (channel_mem s (channel dmastp)) \<noteq> 0
      then (case dma_func (stm32_dma_isr_redir s ! unat (selfindex dmastp)) of
              Some f \<Rightarrow> emit (Callback f (dma_param (stm32_dma_isr_redir s ! unat (selfindex dmastp)))
                                (isr_flags dmastp s))
                         (write_IFCR (dma dmastp) (push_bit (unat (shift dmastp)) (isr_flags dmastp s)) s)
            | None \<Rightarrow> write_IFCR (dma dmastp) (push_bit (unat (shift dmastp)) (isr_flags dmastp s)) s)
      else s)"
  by (simp add: dmaServeInterrupt_def isr_flags_def Let_def redir_write_IFCR unat_idx
      split: option.split)

lemma push_isr_flags:
  "push_bit (unat (shift dmastp)) (isr_flags dmastp s) =
     ISR (dma_mem s (dma dmastp)) AND push_bit (unat (shift dmastp)) STM32_DMA_ISR_MASK"
  unfolding isr_flags_def by (rule reshift_flags)

lemma ifcr_writes_dmaServeInterrupt:
  "ifcr_writes (new_events s (dmaServeInterrupt dmastp s)) =
     (if isr_flags dmastp s AND CCR (channel_mem s (channel dmastp)) \<noteq> 0
      then [(dma dmastp, push_bit (unat (shift dmastp)) (isr_flags dmastp s))]
      else [])"
  by (simp add: dmaServeInterrupt_events split: option.split)

lemma callbacks_dmaServeInterrupt:
  "callbacks (new_events s (dmaServeInterrupt dmastp s)) =
     (case dma_func (stm32_dma_isr_redir s ! unat (selfindex dmastp)) of
        Some f \<Rightarrow>
          if isr_flags dmastp s AND CCR (channel_mem s (channel dmastp)) \<noteq> 0
          then [(f, dma_param (stm32_dma_isr_redir s ! unat (selfindex dmastp)), isr_flags dmastp s)]
          else []
      | None \<Rightarrow> [])"
  by (simp add: dmaServeInterrupt_events split: option.split)

lemma isr_flags_eq_spec:
  "isr_flags dmastp s AND CCR (channel_mem s (channel dmastp)) = spec_enabled_and_set dmastp s"
  by (simp add: isr_flags_def spec_enabled_and_set_def)

lemma isr_flags_in_mask: "isr_flags dmastp s AND NOT STM32_DMA_ISR_MASK = 0"
  unfolding isr_flags_def by (rule bit_word_eqI) (auto simp: bit_simps)

lemma bit_shifted_mask:
  "bit (push_bit n STM32_DMA_ISR_MASK) i \<longleftrightarrow> i < 32 \<and> (i = n + 1 \<or> i = n + 2 \<or> i = n + 3)"
  unfolding STM32_DMA_ISR_MASK_def bit_push_bit_iff bit_0E possible_bit_word
  by auto

lemma bit_0F: "bit (0x0F :: uint32_t) k \<longleftrightarrow> k < 4"
proof -
  have e: "(0x0F :: uint32_t) = mask 4"
    by (simp add: mask_eq_exp_minus_1)
  show ?thesis unfolding e bit_mask_iff possible_bit_word by auto
qed

lemma unat_STM32_DMA_ISR_SHIFT:
  "1 \<le> n \<Longrightarrow> n \<le> 8 \<Longrightarrow> unat (STM32_DMA_ISR_SHIFT n) = 4 * (unat n - 1)"
  by (simp add: STM32_DMA_ISR_SHIFT_def unat_word_ariths word_le_nat_alt unat_sub)

lemma other_stream_disjoint:
  assumes "1 \<le> n" "n \<le> 8" "1 \<le> n'" "n' \<le> 8" "n \<noteq> n'"
  shows "(x AND push_bit (unat (STM32_DMA_ISR_SHIFT n)) STM32_DMA_ISR_MASK) AND
           push_bit (unat (STM32_DMA_ISR_SHIFT n')) 0x0F = (0 :: uint32_t)"
proof -
  have ne: "unat n \<noteq> unat n'" using assms(5) by (simp add: word_unat_eq_iff)
  have a: "1 \<le> unat n" "1 \<le> unat n'" using assms(1,3) by (simp_all add: word_le_nat_alt)
  show ?thesis
    unfolding unat_STM32_DMA_ISR_SHIFT[OF assms(1,2)] unat_STM32_DMA_ISR_SHIFT[OF assms(3,4)]
  proof (rule bit_word_eqI)
    fix i
    assume "i < LENGTH(32)"
    have m: "bit (push_bit (4 * (unat n - 1)) STM32_DMA_ISR_MASK) i \<Longrightarrow>
               i = 4 * (unat n - 1) + 1 \<or> i = 4 * (unat n - 1) + 2 \<or> i = 4 * (unat n - 1) + 3"
      by (simp add: bit_shifted_mask)
    have f: "bit (push_bit (4 * (unat n' - 1)) (0x0F :: uint32_t)) i \<Longrightarrow>
               4 * (unat n' - 1) \<le> i \<and> i - 4 * (unat n' - 1) < 4"
      unfolding bit_push_bit_iff bit_0F by simp
    have "\<not> (bit (push_bit (4 * (unat n - 1)) STM32_DMA_ISR_MASK) i \<and>
             bit (push_bit (4 * (unat n' - 1)) (0x0F :: uint32_t)) i)"
    proof
      assume h: "bit (push_bit (4 * (unat n - 1)) STM32_DMA_ISR_MASK) i \<and>
             bit (push_bit (4 * (unat n' - 1)) (0x0F :: uint32_t)) i"
      from m f h ne a show False by arith
    qed
    then show "bit ((x AND push_bit (4 * (unat n - 1)) STM32_DMA_ISR_MASK) AND
                    push_bit (4 * (unat n' - 1)) 0x0F) i = bit (0 :: uint32_t) i"
      by (simp add: bit_and_iff)
  qed
qed

section \<open>The dispatcher: what is acknowledged\<close>

text \<open>
  Claim C1, as the code has it. For a stream whose offset lies inside the register,
  \<open>dmaServeInterrupt\<close> stores to the clear-flags register only when at least one observed
  status bit of the stream has its enable bit set in the control register. The one value
  it then stores is the whole of the observed status bits of the stream inside the mask
  \<open>0x0E\<close>, at the offset of the stream: every pending bit, also one whose enable bit is
  clear. When no observed bit is enabled nothing is stored.
\<close>

theorem dmaServeInterrupt_acknowledges_observed:
  assumes "unat (shift dmastp) < 32"
  shows "ifcr_writes (new_events s (dmaServeInterrupt dmastp s)) =
     (if spec_enabled_and_set dmastp s \<noteq> 0
      then [(dma dmastp,
             ISR (dma_mem s (dma dmastp)) AND push_bit (unat (shift dmastp)) STM32_DMA_ISR_MASK)]
      else [])"
  by (simp add: ifcr_writes_dmaServeInterrupt isr_flags_eq_spec push_isr_flags)

text \<open>
  The theorem at stream 2 with transfer error and transfer complete pending and only the
  transfer-complete interrupt enabled: both bits are acknowledged.
\<close>

theorem dmaServeInterrupt_acknowledges_observed_witness:
  "unat (shift ex_stream) < 32 \<and>
   ifcr_writes (new_events ex_machine (dmaServeInterrupt ex_stream ex_machine)) = [(0, 0xA0)]"
  using dmaServeInterrupt_acknowledges_observed [of ex_stream ex_machine]
  by (simp add: spec_enabled_and_set_def ex_stream_def ex_machine_def STM32_DMA_ISR_MASK_def)

text \<open>
  Claim C1 as stated fails there. The bits that are set and enabled are \<open>0x20\<close> at the
  offset of the stream, the dispatcher stores \<open>0xA0\<close>: the transfer-error interrupt is
  not enabled and the pending transfer-error bit \<open>0x80\<close> is acknowledged all the same.
\<close>

theorem dmaServeInterrupt_ack_counterexample:
  "ifcr_writes (new_events ex_machine (dmaServeInterrupt ex_stream ex_machine)) \<noteq>
     [(dma ex_stream, push_bit (unat (shift ex_stream)) (spec_enabled_and_set ex_stream ex_machine))] \<and>
   ifcr_writes (new_events ex_machine (dmaServeInterrupt ex_stream ex_machine)) = [(0, 0xA0)] \<and>
   push_bit (unat (shift ex_stream)) (spec_enabled_and_set ex_stream ex_machine) = 0x20 \<and>
   CCR (channel_mem ex_machine (channel ex_stream)) AND STM32_DMA_CR_TEIE = 0 \<and>
   0xA0 AND push_bit (unat (shift ex_stream)) STM32_DMA_ISR_TEIF = (0x80 :: uint32_t)"
  by (simp add: ifcr_writes_dmaServeInterrupt isr_flags_def spec_enabled_and_set_def
      ex_stream_def ex_machine_def STM32_DMA_ISR_MASK_def STM32_DMA_CR_TEIE_def DMA_CCR_TEIE_def
      STM32_DMA_ISR_TEIF_def DMA_ISR_TEIF1_def)

section \<open>The dispatcher: what the callback receives\<close>

text \<open>
  Claim C2, as the code has it. For a stream whose offset lies inside the register and
  whose index lies inside the redirection table, the callback is invoked exactly when one
  is registered and at least one observed status bit of the stream has its enable bit set.
  Its flags argument is then the whole of the observed status bits of the stream, aligned
  to bit zero and masked with \<open>0x0E\<close>: it is not filtered by the control register, so it
  also holds the pending bits whose enable bit is clear.
\<close>

theorem dmaServeInterrupt_callback_flags:
  assumes "unat (shift dmastp) < 32"
    and "unat (selfindex dmastp) < length (stm32_dma_isr_redir s)"
  shows "callbacks (new_events s (dmaServeInterrupt dmastp s)) =
     (case dma_func (stm32_dma_isr_redir s ! unat (selfindex dmastp)) of
        Some f \<Rightarrow>
          if spec_enabled_and_set dmastp s \<noteq> 0
          then [(f, dma_param (stm32_dma_isr_redir s ! unat (selfindex dmastp)),
                 drop_bit (unat (shift dmastp)) (ISR (dma_mem s (dma dmastp))) AND STM32_DMA_ISR_MASK)]
          else []
      | None \<Rightarrow> [])"
  by (simp add: callbacks_dmaServeInterrupt spec_enabled_and_set_def isr_flags_def
      split: option.split)

text \<open>
  The theorem in the scenario of section 8: only transfer-complete enabled, transfer error
  and transfer complete pending. The callback receives both bits.
\<close>

theorem dmaServeInterrupt_callback_flags_witness:
  "unat (shift ex_stream) < 32 \<and>
   unat (selfindex ex_stream) < length (stm32_dma_isr_redir ex_machine) \<and>
   callbacks (new_events ex_machine (dmaServeInterrupt ex_stream ex_machine)) =
     [(0x08001234, 0x20000010, 0xA)]"
  using dmaServeInterrupt_callback_flags [of ex_stream ex_machine]
  by (simp add: spec_enabled_and_set_def ex_stream_def ex_machine_def STM32_DMA_ISR_MASK_def)

text \<open>
  Claim C2 as stated fails in that scenario: the flags argument is transfer error together
  with transfer complete, not transfer complete alone, and the transfer-error bit it holds
  has no enable bit in the control register.
\<close>

theorem dmaServeInterrupt_callback_counterexample:
  "CCR (channel_mem ex_machine (channel ex_stream)) = STM32_DMA_CR_TCIE \<and>
   isr_flags ex_stream ex_machine = STM32_DMA_ISR_TEIF OR STM32_DMA_ISR_TCIF \<and>
   callbacks (new_events ex_machine (dmaServeInterrupt ex_stream ex_machine)) =
     [(0x08001234, 0x20000010, STM32_DMA_ISR_TEIF OR STM32_DMA_ISR_TCIF)] \<and>
   callbacks (new_events ex_machine (dmaServeInterrupt ex_stream ex_machine)) \<noteq>
     [(0x08001234, 0x20000010, STM32_DMA_ISR_TCIF)] \<and>
   (STM32_DMA_ISR_TEIF OR STM32_DMA_ISR_TCIF) AND
     NOT (CCR (channel_mem ex_machine (channel ex_stream))) = STM32_DMA_ISR_TEIF \<and>
   STM32_DMA_ISR_TEIF \<noteq> 0"
  by (simp add: callbacks_dmaServeInterrupt isr_flags_def
      ex_stream_def ex_machine_def STM32_DMA_ISR_MASK_def STM32_DMA_CR_TCIE_def DMA_CCR_TCIE_def
      STM32_DMA_ISR_TEIF_def DMA_ISR_TEIF1_def STM32_DMA_ISR_TCIF_def DMA_ISR_TCIF1_def)

section \<open>The dispatcher: what is skipped\<close>

text \<open>
  Claim C3. When the shifted and masked status bits and the raw control register have no
  bit in common, \<open>dmaServeInterrupt\<close> leaves the machine as it is: no store to the
  clear-flags register, no callback. When the callback of the redirection entry is null, no
  callback is invoked and the dispatcher returns normally, having at most acknowledged the
  flags.
\<close>

theorem dmaServeInterrupt_skips:
  assumes "unat (shift dmastp) < 32"
  shows "(isr_flags dmastp s AND CCR (channel_mem s (channel dmastp)) = 0 \<longrightarrow>
            dmaServeInterrupt dmastp s = s \<and>
            new_events s (dmaServeInterrupt dmastp s) = [] \<and>
            ifcr_writes (new_events s (dmaServeInterrupt dmastp s)) = [] \<and>
            callbacks (new_events s (dmaServeInterrupt dmastp s)) = []) \<and>
         (unat (selfindex dmastp) < length (stm32_dma_isr_redir s) \<and>
          dma_func (stm32_dma_isr_redir s ! unat (selfindex dmastp)) = None \<longrightarrow>
            callbacks (new_events s (dmaServeInterrupt dmastp s)) = [] \<and>
            dmaServeInterrupt dmastp s =
              (if isr_flags dmastp s AND CCR (channel_mem s (channel dmastp)) \<noteq> 0
               then write_IFCR (dma dmastp) (push_bit (unat (shift dmastp)) (isr_flags dmastp s)) s
               else s))"
proof -
  have ev: "isr_flags dmastp s AND CCR (channel_mem s (channel dmastp)) = 0 \<Longrightarrow>
              new_events s (dmaServeInterrupt dmastp s) = []"
    by (simp add: dmaServeInterrupt_events)
  have st: "isr_flags dmastp s AND CCR (channel_mem s (channel dmastp)) = 0 \<Longrightarrow>
              dmaServeInterrupt dmastp s = s"
    by (simp add: dmaServeInterrupt_state)
  have cb: "dma_func (stm32_dma_isr_redir s ! unat (selfindex dmastp)) = None \<Longrightarrow>
              callbacks (new_events s (dmaServeInterrupt dmastp s)) = []"
    by (simp add: callbacks_dmaServeInterrupt)
  have st': "dma_func (stm32_dma_isr_redir s ! unat (selfindex dmastp)) = None \<Longrightarrow>
              dmaServeInterrupt dmastp s =
                (if isr_flags dmastp s AND CCR (channel_mem s (channel dmastp)) \<noteq> 0
                 then write_IFCR (dma dmastp) (push_bit (unat (shift dmastp)) (isr_flags dmastp s)) s
                 else s)"
    by (simp add: dmaServeInterrupt_state)
  from ev st cb st' show ?thesis by simp
qed

text \<open>
  The first part at stream 2 with only half-transfer enabled and not pending; the second
  part at stream 1, whose transfer-complete flag is pending and enabled and whose
  redirection entry holds no callback.
\<close>

theorem dmaServeInterrupt_skips_witness:
  "unat (shift ex_stream) < 32 \<and>
   isr_flags ex_stream ex_masked AND CCR (channel_mem ex_masked (channel ex_stream)) = 0 \<and>
   dmaServeInterrupt ex_stream ex_masked = ex_masked \<and>
   new_events ex_masked (dmaServeInterrupt ex_stream ex_masked) = [] \<and>
   unat (shift ex_free_stream) < 32 \<and>
   unat (selfindex ex_free_stream) < length (stm32_dma_isr_redir ex_machine) \<and>
   dma_func (stm32_dma_isr_redir ex_machine ! unat (selfindex ex_free_stream)) = None \<and>
   callbacks (new_events ex_machine (dmaServeInterrupt ex_free_stream ex_machine)) = [] \<and>
   ifcr_writes (new_events ex_machine (dmaServeInterrupt ex_free_stream ex_machine)) = [(0, 0x2)]"
proof -
  have sh1: "unat (shift ex_stream) < 32"
    by (simp add: ex_stream_def)
  have z: "isr_flags ex_stream ex_masked AND CCR (channel_mem ex_masked (channel ex_stream)) = 0"
    by (simp add: isr_flags_def ex_stream_def ex_masked_def ex_machine_def STM32_DMA_ISR_MASK_def)
  have sh2: "unat (shift ex_free_stream) < 32"
    by (simp add: ex_free_stream_def)
  have idx: "unat (selfindex ex_free_stream) < length (stm32_dma_isr_redir ex_machine)"
    by (simp add: ex_free_stream_def ex_machine_def)
  have nul: "dma_func (stm32_dma_isr_redir ex_machine ! unat (selfindex ex_free_stream)) = None"
    by (simp add: ex_free_stream_def ex_machine_def)
  have wr: "ifcr_writes (new_events ex_machine (dmaServeInterrupt ex_free_stream ex_machine)) = [(0, 0x2)]"
    by (simp add: ifcr_writes_dmaServeInterrupt isr_flags_def ex_free_stream_def ex_machine_def
        STM32_DMA_ISR_MASK_def)
  from dmaServeInterrupt_skips [OF sh1, of ex_masked] z
  have A: "dmaServeInterrupt ex_stream ex_masked = ex_masked \<and>
           new_events ex_masked (dmaServeInterrupt ex_stream ex_masked) = []"
    by blast
  from dmaServeInterrupt_skips [OF sh2, of ex_machine] idx nul
  have B: "callbacks (new_events ex_machine (dmaServeInterrupt ex_free_stream ex_machine)) = []"
    by blast
  from sh1 z A sh2 idx nul B wr show ?thesis by blast
qed

section \<open>The dispatcher: the window of the clear-flags store\<close>

text \<open>
  Claim C10. Every value \<open>dmaServeInterrupt\<close> stores to a clear-flags register goes to the
  controller of the dispatched stream and has its bits inside the window \<open>0x0E\<close> shifted by
  the offset of that stream, bit positions offset + 1 to offset + 3: the global-flag bit at
  the offset itself is never written, and with the offsets that \<open>STM32_DMA_ISR_SHIFT\<close>
  gives to streams 1 to 8 no bit of the four belonging to another stream is written.
\<close>

theorem dmaServeInterrupt_clear_window:
  assumes "unat (shift dmastp) < 32"
    and "(a, v) \<in> set (ifcr_writes (new_events s (dmaServeInterrupt dmastp s)))"
  shows "a = dma dmastp \<and>
         v AND NOT (push_bit (unat (shift dmastp)) STM32_DMA_ISR_MASK) = 0 \<and>
         (\<forall>i. bit v i \<longrightarrow> unat (shift dmastp) + 1 \<le> i \<and> i \<le> unat (shift dmastp) + 3) \<and>
         \<not> bit v (unat (shift dmastp)) \<and>
         (\<forall>n n'. 1 \<le> n \<and> n \<le> 8 \<and> 1 \<le> n' \<and> n' \<le> 8 \<and> n \<noteq> n' \<and>
                 unat (shift dmastp) = unat (STM32_DMA_ISR_SHIFT n) \<longrightarrow>
                 v AND push_bit (unat (STM32_DMA_ISR_SHIFT n')) 0x0F = 0)"
proof -
  from assms(2) have a: "a = dma dmastp"
    and v: "v = ISR (dma_mem s (dma dmastp)) AND push_bit (unat (shift dmastp)) STM32_DMA_ISR_MASK"
    by (simp_all add: ifcr_writes_dmaServeInterrupt push_isr_flags split: if_splits)
  have w: "v AND NOT (push_bit (unat (shift dmastp)) STM32_DMA_ISR_MASK) = 0"
    unfolding v by (rule bit_word_eqI) (auto simp: bit_and_iff bit_not_iff)
  have b: "bit v i \<Longrightarrow> unat (shift dmastp) + 1 \<le> i \<and> i \<le> unat (shift dmastp) + 3" for i
    unfolding v bit_and_iff bit_shifted_mask by auto
  have g: "\<not> bit v (unat (shift dmastp))"
    using b [of "unat (shift dmastp)"] by auto
  have o: "v AND push_bit (unat (STM32_DMA_ISR_SHIFT n')) 0x0F = 0"
    if "1 \<le> n" "n \<le> 8" "1 \<le> n'" "n' \<le> 8" "n \<noteq> n'"
      "unat (shift dmastp) = unat (STM32_DMA_ISR_SHIFT n)" for n n'
    unfolding v that(6) by (rule other_stream_disjoint [OF that(1-5)])
  from a w b g o show ?thesis by blast
qed

text \<open>The theorem at stream 2: the store \<open>0xA0\<close> touches neither stream 1 nor stream 3.\<close>

theorem dmaServeInterrupt_clear_window_witness:
  "unat (shift ex_stream) < 32 \<and>
   (0, 0xA0) \<in> set (ifcr_writes (new_events ex_machine (dmaServeInterrupt ex_stream ex_machine))) \<and>
   unat (shift ex_stream) = unat (STM32_DMA_ISR_SHIFT 2) \<and>
   (0xA0 :: uint32_t) AND NOT (push_bit (unat (shift ex_stream)) STM32_DMA_ISR_MASK) = 0 \<and>
   \<not> bit (0xA0 :: uint32_t) (unat (shift ex_stream)) \<and>
   (0xA0 :: uint32_t) AND push_bit (unat (STM32_DMA_ISR_SHIFT 1)) 0x0F = 0 \<and>
   (0xA0 :: uint32_t) AND push_bit (unat (STM32_DMA_ISR_SHIFT 3)) 0x0F = 0"
proof -
  have sh: "unat (shift ex_stream) < 32"
    by (simp add: ex_stream_def)
  have wr: "(0, 0xA0) \<in> set (ifcr_writes (new_events ex_machine (dmaServeInterrupt ex_stream ex_machine)))"
    by (simp add: ifcr_writes_dmaServeInterrupt isr_flags_def ex_stream_def ex_machine_def
        STM32_DMA_ISR_MASK_def)
  have s2: "unat (shift ex_stream) = unat (STM32_DMA_ISR_SHIFT 2)"
    by (simp add: ex_stream_def STM32_DMA_ISR_SHIFT_def)
  note T = dmaServeInterrupt_clear_window [OF sh wr]
  from T have w: "(0xA0 :: uint32_t) AND NOT (push_bit (unat (shift ex_stream)) STM32_DMA_ISR_MASK) = 0"
    by blast
  from T have g: "\<not> bit (0xA0 :: uint32_t) (unat (shift ex_stream))"
    by blast
  from T have o: "1 \<le> n \<and> n \<le> 8 \<and> 1 \<le> n' \<and> n' \<le> 8 \<and> n \<noteq> n' \<and>
                  unat (shift ex_stream) = unat (STM32_DMA_ISR_SHIFT n) \<longrightarrow>
                  (0xA0 :: uint32_t) AND push_bit (unat (STM32_DMA_ISR_SHIFT n')) 0x0F = 0" for n n'
    by blast
  from o [of 2 1] s2 have o1: "(0xA0 :: uint32_t) AND push_bit (unat (STM32_DMA_ISR_SHIFT 1)) 0x0F = 0"
    by simp
  from o [of 2 3] s2 have o3: "(0xA0 :: uint32_t) AND push_bit (unat (STM32_DMA_ISR_SHIFT 3)) 0x0F = 0"
    by simp
  from sh wr s2 w g o1 o3 show ?thesis by blast
qed

section \<open>Disabling a stream and clearing its flags\<close>

lemma dmaStreamClearInterrupt_events:
  "new_events s (dmaStreamClearInterrupt dmastp s) =
     [Write_IFCR (dma dmastp) (push_bit (unat (shift dmastp)) STM32_DMA_ISR_MASK)]"
  by (simp add: dmaStreamClearInterrupt_def new_events_def trace_write_IFCR)

lemma dmaStreamDisable_events:
  "new_events s (dmaStreamDisable dmastp s) =
     [Write_CCR (channel dmastp)
        (CCR (channel_mem s (channel dmastp)) AND
           NOT (STM32_DMA_CR_TCIE OR STM32_DMA_CR_HTIE OR STM32_DMA_CR_TEIE OR STM32_DMA_CR_EN)),
      Write_IFCR (dma dmastp) (push_bit (unat (shift dmastp)) STM32_DMA_ISR_MASK)]"
  by (simp add: dmaStreamDisable_def dmaStreamClearInterrupt_def new_events_def
      trace_write_IFCR trace_write_CCR)

lemma CCR_dmaStreamDisable:
  "CCR (channel_mem (dmaStreamDisable dmastp s) (channel dmastp)) =
     CCR (channel_mem s (channel dmastp)) AND
       NOT (STM32_DMA_CR_TCIE OR STM32_DMA_CR_HTIE OR STM32_DMA_CR_TEIE OR STM32_DMA_CR_EN)"
  by (simp add: dmaStreamDisable_def dmaStreamClearInterrupt_def channel_mem_write_IFCR
      CCR_write_CCR)

lemma ISR_dmaStreamDisable:
  "ISR (dma_mem (dmaStreamDisable dmastp s) (dma dmastp)) =
     ISR (dma_mem s (dma dmastp)) AND NOT (push_bit (unat (shift dmastp)) STM32_DMA_ISR_MASK)"
  by (simp add: dmaStreamDisable_def dmaStreamClearInterrupt_def ISR_write_IFCR
      dma_mem_write_CCR)

lemma CNDTR_dmaStreamDisable:
  "CNDTR (channel_mem (dmaStreamDisable dmastp s) c) = CNDTR (channel_mem s c)"
  by (simp add: dmaStreamDisable_def dmaStreamClearInterrupt_def channel_mem_write_IFCR
      CNDTR_write_CCR)

lemma cleared_bits:
  "(x AND NOT (a OR b OR c OR d)) AND a = (0 :: uint32_t)"
  "(x AND NOT (a OR b OR c OR d)) AND b = (0 :: uint32_t)"
  "(x AND NOT (a OR b OR c OR d)) AND c = (0 :: uint32_t)"
  "(x AND NOT (a OR b OR c OR d)) AND d = (0 :: uint32_t)"
  by (rule bit_word_eqI, auto simp: bit_and_iff bit_or_iff bit_not_iff)+

text \<open>
  Claim C4. Whatever the control register holds, \<open>dmaStreamDisable\<close> makes two stores, in
  this order: one store to the control register that clears the enable bit and the three
  interrupt-enable bits together and keeps every other bit, then one store to the
  clear-flags register for the flags of the stream. Afterwards the enable bit and the three
  interrupt-enable bits are zero, and none of the three status flags of the stream is
  pending in the status register.
\<close>

theorem dmaStreamDisable_clears:
  assumes "unat (shift dmastp) < 32"
  shows "new_events s (dmaStreamDisable dmastp s) =
           [Write_CCR (channel dmastp)
              (CCR (channel_mem s (channel dmastp)) AND
                 NOT (STM32_DMA_CR_TCIE OR STM32_DMA_CR_HTIE OR STM32_DMA_CR_TEIE OR STM32_DMA_CR_EN)),
            Write_IFCR (dma dmastp) (push_bit (unat (shift dmastp)) STM32_DMA_ISR_MASK)] \<and>
         CCR (channel_mem (dmaStreamDisable dmastp s) (channel dmastp)) AND STM32_DMA_CR_EN = 0 \<and>
         CCR (channel_mem (dmaStreamDisable dmastp s) (channel dmastp)) AND STM32_DMA_CR_TCIE = 0 \<and>
         CCR (channel_mem (dmaStreamDisable dmastp s) (channel dmastp)) AND STM32_DMA_CR_HTIE = 0 \<and>
         CCR (channel_mem (dmaStreamDisable dmastp s) (channel dmastp)) AND STM32_DMA_CR_TEIE = 0 \<and>
         isr_flags dmastp (dmaStreamDisable dmastp s) = 0 \<and>
         ISR (dma_mem (dmaStreamDisable dmastp s) (dma dmastp)) AND
           push_bit (unat (shift dmastp)) STM32_DMA_ISR_MASK = 0"
proof -
  let ?s' = "dmaStreamDisable dmastp s"
  have fl: "ISR (dma_mem ?s' (dma dmastp)) AND push_bit (unat (shift dmastp)) STM32_DMA_ISR_MASK = 0"
    unfolding ISR_dmaStreamDisable by (rule and_not_and)
  have nf: "isr_flags dmastp ?s' = 0"
  proof (rule bit_word_eqI)
    fix k
    assume "k < LENGTH(32)"
    have "\<not> bit (isr_flags dmastp ?s') k"
    proof
      assume b: "bit (isr_flags dmastp ?s') k"
      then have 1: "bit (ISR (dma_mem ?s' (dma dmastp))) (unat (shift dmastp) + k)"
        and 2: "bit STM32_DMA_ISR_MASK k"
        by (simp_all add: isr_flags_def bit_and_iff bit_drop_bit_eq)
      from 1 have "unat (shift dmastp) + k < 32"
        using bit_imp_le_length by fastforce
      with 2 have "bit (push_bit (unat (shift dmastp)) STM32_DMA_ISR_MASK :: uint32_t) (unat (shift dmastp) + k)"
        by (simp add: bit_push_bit_iff)
      with 1 have "bit (ISR (dma_mem ?s' (dma dmastp)) AND
                        push_bit (unat (shift dmastp)) STM32_DMA_ISR_MASK) (unat (shift dmastp) + k)"
        by (simp add: bit_and_iff)
      with fl show False by simp
    qed
    then show "bit (isr_flags dmastp ?s') k = bit (0 :: uint32_t) k" by simp
  qed
  have en: "CCR (channel_mem ?s' (channel dmastp)) AND STM32_DMA_CR_EN = 0"
    unfolding CCR_dmaStreamDisable by (rule cleared_bits(4))
  have tc: "CCR (channel_mem ?s' (channel dmastp)) AND STM32_DMA_CR_TCIE = 0"
    unfolding CCR_dmaStreamDisable by (rule cleared_bits(1))
  have ht: "CCR (channel_mem ?s' (channel dmastp)) AND STM32_DMA_CR_HTIE = 0"
    unfolding CCR_dmaStreamDisable by (rule cleared_bits(2))
  have te: "CCR (channel_mem ?s' (channel dmastp)) AND STM32_DMA_CR_TEIE = 0"
    unfolding CCR_dmaStreamDisable by (rule cleared_bits(3))
  from dmaStreamDisable_events [of s dmastp] en tc ht te nf fl show ?thesis by blast
qed

text \<open>
  The theorem at stream 2 with the transfer-complete interrupt enabled and two flags
  pending: both stores, and no flag of the stream left.
\<close>

theorem dmaStreamDisable_clears_witness:
  "unat (shift ex_stream) < 32 \<and>
   new_events ex_machine (dmaStreamDisable ex_stream ex_machine) = [Write_CCR 1 0, Write_IFCR 0 0xE0] \<and>
   CCR (channel_mem (dmaStreamDisable ex_stream ex_machine) (channel ex_stream)) AND STM32_DMA_CR_TCIE = 0 \<and>
   ISR (dma_mem ex_machine (dma ex_stream)) AND push_bit (unat (shift ex_stream)) STM32_DMA_ISR_MASK = 0xA0 \<and>
   ISR (dma_mem (dmaStreamDisable ex_stream ex_machine) (dma ex_stream)) AND
     push_bit (unat (shift ex_stream)) STM32_DMA_ISR_MASK = 0"
proof -
  have sh: "unat (shift ex_stream) < 32"
    by (simp add: ex_stream_def)
  have ev: "[Write_CCR (channel ex_stream)
              (CCR (channel_mem ex_machine (channel ex_stream)) AND
                 NOT (STM32_DMA_CR_TCIE OR STM32_DMA_CR_HTIE OR STM32_DMA_CR_TEIE OR STM32_DMA_CR_EN)),
            Write_IFCR (dma ex_stream) (push_bit (unat (shift ex_stream)) STM32_DMA_ISR_MASK)] =
           [Write_CCR 1 0, Write_IFCR 0 0xE0]"
    by (simp add: ex_stream_def ex_machine_def STM32_DMA_ISR_MASK_def STM32_DMA_CR_TCIE_def
        DMA_CCR_TCIE_def STM32_DMA_CR_HTIE_def DMA_CCR_HTIE_def STM32_DMA_CR_TEIE_def
        DMA_CCR_TEIE_def STM32_DMA_CR_EN_def DMA_CCR_EN_def)
  have pend: "ISR (dma_mem ex_machine (dma ex_stream)) AND
                push_bit (unat (shift ex_stream)) STM32_DMA_ISR_MASK = 0xA0"
    by (simp add: ex_stream_def ex_machine_def STM32_DMA_ISR_MASK_def)
  note T = dmaStreamDisable_clears [OF sh, of ex_machine]
  from T have "new_events ex_machine (dmaStreamDisable ex_stream ex_machine) =
           [Write_CCR (channel ex_stream)
              (CCR (channel_mem ex_machine (channel ex_stream)) AND
                 NOT (STM32_DMA_CR_TCIE OR STM32_DMA_CR_HTIE OR STM32_DMA_CR_TEIE OR STM32_DMA_CR_EN)),
            Write_IFCR (dma ex_stream) (push_bit (unat (shift ex_stream)) STM32_DMA_ISR_MASK)]"
    by blast
  then have e: "new_events ex_machine (dmaStreamDisable ex_stream ex_machine) =
                  [Write_CCR 1 0, Write_IFCR 0 0xE0]"
    by (simp only: ev)
  from T have tc: "CCR (channel_mem (dmaStreamDisable ex_stream ex_machine) (channel ex_stream)) AND
                     STM32_DMA_CR_TCIE = 0"
    by blast
  from T have fl: "ISR (dma_mem (dmaStreamDisable ex_stream ex_machine) (dma ex_stream)) AND
                     push_bit (unat (shift ex_stream)) STM32_DMA_ISR_MASK = 0"
    by blast
  from sh e tc pend fl show ?thesis by blast
qed

text \<open>
  Claim C7, as the code has it. \<open>dmaStreamClearInterrupt\<close> does not read the status
  register: it stores the constant mask \<open>0x0E\<close>, shifted to the offset of the stream, to the
  clear-flags register, which covers the pending status bits of the stream and the other
  flag positions of the stream as well. The channel registers, with them the control
  register, stay as they were.
\<close>

theorem dmaStreamClearInterrupt_writes_mask:
  assumes "unat (shift dmastp) < 32"
  shows "new_events s (dmaStreamClearInterrupt dmastp s) =
           [Write_IFCR (dma dmastp) (push_bit (unat (shift dmastp)) STM32_DMA_ISR_MASK)] \<and>
         channel_mem (dmaStreamClearInterrupt dmastp s) = channel_mem s \<and>
         CCR (channel_mem (dmaStreamClearInterrupt dmastp s) (channel dmastp)) =
           CCR (channel_mem s (channel dmastp)) \<and>
         spec_status_written_back dmastp s AND
           NOT (push_bit (unat (shift dmastp)) STM32_DMA_ISR_MASK) = 0"
proof -
  have "spec_status_written_back dmastp s AND
          NOT (push_bit (unat (shift dmastp)) STM32_DMA_ISR_MASK) = 0"
    unfolding spec_status_written_back_def reshift_flags
    by (rule bit_word_eqI) (auto simp: bit_and_iff bit_not_iff)
  then show ?thesis
    by (simp add: dmaStreamClearInterrupt_events)
      (simp add: dmaStreamClearInterrupt_def channel_mem_write_IFCR)
qed

text \<open>The theorem at stream 2: the store is \<open>0xE0\<close> and the control register keeps \<open>0x2\<close>.\<close>

theorem dmaStreamClearInterrupt_writes_mask_witness:
  "unat (shift ex_stream) < 32 \<and>
   new_events ex_machine (dmaStreamClearInterrupt ex_stream ex_machine) = [Write_IFCR 0 0xE0] \<and>
   CCR (channel_mem (dmaStreamClearInterrupt ex_stream ex_machine) (channel ex_stream)) = 0x2"
proof -
  have sh: "unat (shift ex_stream) < 32"
    by (simp add: ex_stream_def)
  have v: "Write_IFCR (dma ex_stream) (push_bit (unat (shift ex_stream)) STM32_DMA_ISR_MASK) =
           Write_IFCR 0 0xE0"
    by (simp add: ex_stream_def STM32_DMA_ISR_MASK_def)
  have c: "CCR (channel_mem ex_machine (channel ex_stream)) = 0x2"
    by (simp add: ex_machine_def)
  note T = dmaStreamClearInterrupt_writes_mask [OF sh, of ex_machine]
  from T have "new_events ex_machine (dmaStreamClearInterrupt ex_stream ex_machine) =
           [Write_IFCR (dma ex_stream) (push_bit (unat (shift ex_stream)) STM32_DMA_ISR_MASK)]"
    by blast
  then have e: "new_events ex_machine (dmaStreamClearInterrupt ex_stream ex_machine) =
                  [Write_IFCR 0 0xE0]"
    by (simp only: v)
  from T have "CCR (channel_mem (dmaStreamClearInterrupt ex_stream ex_machine) (channel ex_stream)) =
                 CCR (channel_mem ex_machine (channel ex_stream))"
    by blast
  then have k: "CCR (channel_mem (dmaStreamClearInterrupt ex_stream ex_machine) (channel ex_stream)) = 0x2"
    by (simp only: c)
  from sh e k show ?thesis by blast
qed

text \<open>
  Claim C7 as stated fails there: the status bits of stream 2 at its offset are \<open>0xA0\<close>
  (half transfer is not pending), the value stored is \<open>0xE0\<close>.
\<close>

theorem dmaStreamClearInterrupt_counterexample:
  "ifcr_writes (new_events ex_machine (dmaStreamClearInterrupt ex_stream ex_machine)) = [(0, 0xE0)] \<and>
   spec_status_written_back ex_stream ex_machine = 0xA0 \<and>
   ifcr_writes (new_events ex_machine (dmaStreamClearInterrupt ex_stream ex_machine)) \<noteq>
     [(dma ex_stream, spec_status_written_back ex_stream ex_machine)]"
  by (simp add: dmaStreamClearInterrupt_events spec_status_written_back_def ex_stream_def
      ex_machine_def STM32_DMA_ISR_MASK_def)

section \<open>Starting a memory to memory copy\<close>

lemma dmaStartMemCopy_events:
  "new_events s (dmaStartMemCopy dmastp mode src dst n s) =
     [Write_CPAR (channel dmastp) src, Write_CMAR (channel dmastp) dst,
      Write_CNDTR (channel dmastp) n,
      Write_CCR (channel dmastp)
        (mode OR STM32_DMA_CR_MINC OR STM32_DMA_CR_PINC OR STM32_DMA_CR_DIR_M2M OR STM32_DMA_CR_EN)]"
  by (simp add: new_events_def dmaStartMemCopy_def dmaStreamSetMode_def
      dmaStreamSetTransactionSize_def dmaStreamSetMemory0_def dmaStreamSetPeripheral_def
      write_CCR_def write_CNDTR_def write_CMAR_def write_CPAR_def emit_def)

lemma dmaStartMemCopy_regs:
  "channel_mem (dmaStartMemCopy dmastp mode src dst n s) (channel dmastp) =
     (channel_mem s (channel dmastp))
       \<lparr>CCR := mode OR STM32_DMA_CR_MINC OR STM32_DMA_CR_PINC OR STM32_DMA_CR_DIR_M2M OR
                 STM32_DMA_CR_EN,
        CNDTR := n, CPAR := src, CMAR := dst\<rparr>"
  by (simp add: dmaStartMemCopy_def dmaStreamSetMode_def
      dmaStreamSetTransactionSize_def dmaStreamSetMemory0_def dmaStreamSetPeripheral_def
      write_CCR_def write_CNDTR_def write_CMAR_def write_CPAR_def emit_def)

lemma CCR_dmaStartMemCopy:
  "CCR (channel_mem (dmaStartMemCopy dmastp mode src dst n s) (channel dmastp)) =
     (mode OR STM32_DMA_CR_MINC OR STM32_DMA_CR_PINC OR STM32_DMA_CR_DIR_M2M OR STM32_DMA_CR_EN)"
  by (simp add: dmaStartMemCopy_regs)

lemma or_contains:
  "(m OR a OR b OR c OR d) AND a = (a :: uint32_t)"
  "(m OR a OR b OR c OR d) AND b = (b :: uint32_t)"
  "(m OR a OR b OR c OR d) AND c = (c :: uint32_t)"
  "(m OR a OR b OR c OR d) AND d = (d :: uint32_t)"
  "(m OR a OR b OR c OR d) AND m = (m :: uint32_t)"
  by (rule bit_word_eqI, auto simp: bit_and_iff bit_or_iff)+

text \<open>
  Claim C5. For every mode, source, destination and count, \<open>dmaStartMemCopy\<close> stores the
  source to the peripheral-address register, the destination to the memory-address
  register, the count to the transaction-count register and then the mode to the control
  register, in this order. The mode stored is the mode of the caller with the
  memory-increment, peripheral-increment, memory-to-memory and enable bits set: each of the
  four is contained in it, and so is every bit the caller supplied.
\<close>

theorem dmaStartMemCopy_writes:
  "new_events s (dmaStartMemCopy dmastp mode src dst n s) =
     [Write_CPAR (channel dmastp) src, Write_CMAR (channel dmastp) dst,
      Write_CNDTR (channel dmastp) n,
      Write_CCR (channel dmastp)
        (mode OR STM32_DMA_CR_MINC OR STM32_DMA_CR_PINC OR STM32_DMA_CR_DIR_M2M OR STM32_DMA_CR_EN)] \<and>
   (mode OR STM32_DMA_CR_MINC OR STM32_DMA_CR_PINC OR STM32_DMA_CR_DIR_M2M OR STM32_DMA_CR_EN) AND
     STM32_DMA_CR_MINC = STM32_DMA_CR_MINC \<and>
   (mode OR STM32_DMA_CR_MINC OR STM32_DMA_CR_PINC OR STM32_DMA_CR_DIR_M2M OR STM32_DMA_CR_EN) AND
     STM32_DMA_CR_PINC = STM32_DMA_CR_PINC \<and>
   (mode OR STM32_DMA_CR_MINC OR STM32_DMA_CR_PINC OR STM32_DMA_CR_DIR_M2M OR STM32_DMA_CR_EN) AND
     STM32_DMA_CR_DIR_M2M = STM32_DMA_CR_DIR_M2M \<and>
   (mode OR STM32_DMA_CR_MINC OR STM32_DMA_CR_PINC OR STM32_DMA_CR_DIR_M2M OR STM32_DMA_CR_EN) AND
     STM32_DMA_CR_EN = STM32_DMA_CR_EN \<and>
   (mode OR STM32_DMA_CR_MINC OR STM32_DMA_CR_PINC OR STM32_DMA_CR_DIR_M2M OR STM32_DMA_CR_EN) AND
     mode = mode \<and>
   CPAR (channel_mem (dmaStartMemCopy dmastp mode src dst n s) (channel dmastp)) = src \<and>
   CMAR (channel_mem (dmaStartMemCopy dmastp mode src dst n s) (channel dmastp)) = dst \<and>
   CNDTR (channel_mem (dmaStartMemCopy dmastp mode src dst n s) (channel dmastp)) = n \<and>
   CCR (channel_mem (dmaStartMemCopy dmastp mode src dst n s) (channel dmastp)) =
     (mode OR STM32_DMA_CR_MINC OR STM32_DMA_CR_PINC OR STM32_DMA_CR_DIR_M2M OR STM32_DMA_CR_EN) \<and>
   STM32_DMA_CR_MINC \<noteq> 0 \<and> STM32_DMA_CR_PINC \<noteq> 0 \<and>
   STM32_DMA_CR_DIR_M2M \<noteq> 0 \<and> STM32_DMA_CR_EN \<noteq> 0"
proof -
  have nz: "STM32_DMA_CR_MINC \<noteq> 0 \<and> STM32_DMA_CR_PINC \<noteq> 0 \<and>
            STM32_DMA_CR_DIR_M2M \<noteq> 0 \<and> STM32_DMA_CR_EN \<noteq> 0"
    by (simp add: STM32_DMA_CR_MINC_def DMA_CCR_MINC_def STM32_DMA_CR_PINC_def DMA_CCR_PINC_def
        STM32_DMA_CR_DIR_M2M_def DMA_CCR_MEM2MEM_def STM32_DMA_CR_EN_def DMA_CCR_EN_def)
  have "CPAR (channel_mem (dmaStartMemCopy dmastp mode src dst n s) (channel dmastp)) = src \<and>
        CMAR (channel_mem (dmaStartMemCopy dmastp mode src dst n s) (channel dmastp)) = dst \<and>
        CNDTR (channel_mem (dmaStartMemCopy dmastp mode src dst n s) (channel dmastp)) = n"
    by (simp add: dmaStartMemCopy_regs)
  with nz show ?thesis
    by (simp only: dmaStartMemCopy_events CCR_dmaStartMemCopy or_contains) simp
qed

section \<open>Waiting for the end of a transfer\<close>

text \<open>
  The loop returns only if some read of the transaction-count register gives zero, and it
  returns at the first such read.
\<close>

lemma dmaWaitCompletion_Some_imp:
  assumes "dmaWaitCompletion hw d s = Some y"
  shows "\<exists>n. CNDTR (channel_mem ((hw ^^ n) s) (channel d)) = 0"
proof (rule dmaWaitCompletion.raw_induct
    [where P = "\<lambda>hw d s y. \<exists>n. CNDTR (channel_mem ((hw ^^ n) s) (channel d)) = 0", OF _ assms])
  fix dwc :: "(machine \<Rightarrow> machine) \<Rightarrow> stm32_dma_stream_t \<Rightarrow> machine \<Rightarrow> machine option"
  fix hw d s y
  assume IH: "\<And>hw d s y. dwc hw d s = Some y \<Longrightarrow>
                \<exists>n. CNDTR (channel_mem ((hw ^^ n) s) (channel d)) = 0"
  assume step: "(if 0 < CNDTR (channel_mem s (channel d)) then dwc hw d (hw s)
      else Some (dmaStreamDisable d s)) = Some y"
  show "\<exists>n. CNDTR (channel_mem ((hw ^^ n) s) (channel d)) = 0"
  proof (cases "0 < CNDTR (channel_mem s (channel d))")
    case True
    with step have "dwc hw d (hw s) = Some y" by simp
    from IH [OF this] obtain n where "CNDTR (channel_mem ((hw ^^ n) (hw s)) (channel d)) = 0"
      by blast
    then have "CNDTR (channel_mem ((hw ^^ Suc n) s) (channel d)) = 0"
      by (simp add: funpow_swap1)
    then show ?thesis by blast
  next
    case False
    then have "CNDTR (channel_mem ((hw ^^ 0) s) (channel d)) = 0"
      by (simp add: word_gt_0)
    then show ?thesis by blast
  qed
qed

lemma dmaWaitCompletion_diverges:
  "\<forall>n. CNDTR (channel_mem ((hw ^^ n) s) (channel d)) \<noteq> 0 \<Longrightarrow> dmaWaitCompletion hw d s = None"
  using dmaWaitCompletion_Some_imp [of hw d s] by (cases "dmaWaitCompletion hw d s") auto

lemma dmaWaitCompletion_first_zero:
  "CNDTR (channel_mem ((hw ^^ n) s) (channel d)) = 0 \<Longrightarrow>
   \<forall>k<n. CNDTR (channel_mem ((hw ^^ k) s) (channel d)) \<noteq> 0 \<Longrightarrow>
   dmaWaitCompletion hw d s = Some (dmaStreamDisable d ((hw ^^ n) s))"
proof (induction n arbitrary: s)
  case 0
  then show ?case by (subst dmaWaitCompletion.simps) simp
next
  case (Suc n)
  from Suc.prems(2) have nz: "CNDTR (channel_mem s (channel d)) \<noteq> 0" by fastforce
  have a: "CNDTR (channel_mem ((hw ^^ n) (hw s)) (channel d)) = 0"
    using Suc.prems(1) by (simp add: funpow_swap1)
  have b: "\<forall>k<n. CNDTR (channel_mem ((hw ^^ k) (hw s)) (channel d)) \<noteq> 0"
  proof (intro allI impI)
    fix k assume "k < n"
    then have "Suc k < Suc n" by simp
    with Suc.prems(2) have "CNDTR (channel_mem ((hw ^^ Suc k) s) (channel d)) \<noteq> 0" by blast
    then show "CNDTR (channel_mem ((hw ^^ k) (hw s)) (channel d)) \<noteq> 0"
      by (simp add: funpow_swap1)
  qed
  have "dmaWaitCompletion hw d s = dmaWaitCompletion hw d (hw s)"
    using nz by (subst dmaWaitCompletion.simps) (simp add: word_gt_0)
  also have "\<dots> = Some (dmaStreamDisable d ((hw ^^ n) (hw s)))"
    by (rule Suc.IH [OF a b])
  finally show ?case by (simp add: funpow_swap1)
qed

lemma ex_hw_CNDTR:
  "unat (CNDTR (channel_mem ((ex_hw ^^ n) s) 1)) = unat (CNDTR (channel_mem s 1)) - n"
proof (induction n)
  case 0
  show ?case by simp
next
  case (Suc n)
  have "unat (CNDTR (channel_mem (ex_hw t) 1)) = unat (CNDTR (channel_mem t 1)) - 1" for t
    by (simp add: ex_hw_def unat_minus_one)
  then show ?case using Suc by simp
qed

text \<open>
  Claim C6. If the transaction-count register of the stream reads zero after some number of
  polls, \<open>dmaWaitCompletion\<close> returns: it polls up to the first read that gives zero and
  then runs \<open>dmaStreamDisable\<close> on the machine of that moment. In the machine it returns,
  \<open>dmaStreamGetTransactionSize\<close> is zero and the enable bit of the control register is clear.
\<close>

theorem dmaWaitCompletion_returns:
  assumes "unat (shift dmastp) < 32"
    and "CNDTR (channel_mem ((hw ^^ n) s) (channel dmastp)) = 0"
  shows "\<exists>k\<le>n. (\<forall>j<k. CNDTR (channel_mem ((hw ^^ j) s) (channel dmastp)) \<noteq> 0) \<and>
           CNDTR (channel_mem ((hw ^^ k) s) (channel dmastp)) = 0 \<and>
           dmaWaitCompletion hw dmastp s = Some (dmaStreamDisable dmastp ((hw ^^ k) s)) \<and>
           dmaStreamGetTransactionSize dmastp (dmaStreamDisable dmastp ((hw ^^ k) s)) = 0 \<and>
           CCR (channel_mem (dmaStreamDisable dmastp ((hw ^^ k) s)) (channel dmastp)) AND
             STM32_DMA_CR_EN = 0"
proof -
  define k where "k = (LEAST i. CNDTR (channel_mem ((hw ^^ i) s) (channel dmastp)) = 0)"
  have kz: "CNDTR (channel_mem ((hw ^^ k) s) (channel dmastp)) = 0"
    unfolding k_def using assms(2) by (rule LeastI)
  have kn: "k \<le> n"
    unfolding k_def using assms(2) by (rule Least_le)
  have kl: "\<forall>j<k. CNDTR (channel_mem ((hw ^^ j) s) (channel dmastp)) \<noteq> 0"
    unfolding k_def using not_less_Least by blast
  have r: "dmaWaitCompletion hw dmastp s = Some (dmaStreamDisable dmastp ((hw ^^ k) s))"
    using kz kl by (rule dmaWaitCompletion_first_zero)
  have g: "dmaStreamGetTransactionSize dmastp (dmaStreamDisable dmastp ((hw ^^ k) s)) = 0"
    by (simp add: dmaStreamGetTransactionSize_def CNDTR_dmaStreamDisable kz)
  have e: "CCR (channel_mem (dmaStreamDisable dmastp ((hw ^^ k) s)) (channel dmastp)) AND
             STM32_DMA_CR_EN = 0"
    unfolding CCR_dmaStreamDisable by (rule cleared_bits(4))
  from kn kl kz r g e show ?thesis by blast
qed

text \<open>
  The theorem in the scenario of section 8: a copy of 100 data units is started, the
  engine moves one unit between two polls, and the wait returns with transaction size zero
  and the stream disabled.
\<close>

theorem dmaWaitCompletion_returns_witness:
  "unat (shift ex_stream) < 32 \<and>
   dmaStreamGetTransactionSize ex_stream ex_copying = 100 \<and>
   CCR (channel_mem ex_copying (channel ex_stream)) AND STM32_DMA_CR_EN = STM32_DMA_CR_EN \<and>
   CNDTR (channel_mem ((ex_hw ^^ 100) ex_copying) (channel ex_stream)) = 0 \<and>
   (\<exists>s'. dmaWaitCompletion ex_hw ex_stream ex_copying = Some s' \<and>
         dmaStreamGetTransactionSize ex_stream s' = 0 \<and>
         CCR (channel_mem s' (channel ex_stream)) AND STM32_DMA_CR_EN = 0)"
proof -
  have sh: "unat (shift ex_stream) < 32"
    by (simp add: ex_stream_def)
  have ch: "channel ex_stream = 1"
    by (simp add: ex_stream_def)
  have c0: "CNDTR (channel_mem ex_copying (channel ex_stream)) = 100"
    by (simp add: ex_copying_def dmaStartMemCopy_regs)
  have en: "CCR (channel_mem ex_copying (channel ex_stream)) AND STM32_DMA_CR_EN = STM32_DMA_CR_EN"
    unfolding ex_copying_def CCR_dmaStartMemCopy by (rule or_contains(4))
  have "unat (CNDTR (channel_mem ((ex_hw ^^ 100) ex_copying) 1)) =
          unat (CNDTR (channel_mem ex_copying 1)) - 100"
    by (rule ex_hw_CNDTR)
  also have "\<dots> = 0"
    using c0 unfolding ch by simp
  finally have z: "CNDTR (channel_mem ((ex_hw ^^ 100) ex_copying) (channel ex_stream)) = 0"
    unfolding ch by (simp only: unat_eq_0)
  from dmaWaitCompletion_returns [OF sh z]
  have "\<exists>s'. dmaWaitCompletion ex_hw ex_stream ex_copying = Some s' \<and>
         dmaStreamGetTransactionSize ex_stream s' = 0 \<and>
         CCR (channel_mem s' (channel ex_stream)) AND STM32_DMA_CR_EN = 0"
    by blast
  with sh c0 en z show ?thesis
    by (simp add: dmaStreamGetTransactionSize_def)
qed

section \<open>Priorities\<close>

lemma STM32_DMA_IS_VALID_PRIORITY_unat: "STM32_DMA_IS_VALID_PRIORITY p \<longleftrightarrow> unat p \<le> 3"
  by (simp add: STM32_DMA_IS_VALID_PRIORITY_def word_le_nat_alt)

lemma STM32_DMA_IS_VALID_PRIORITY_cases:
  "STM32_DMA_IS_VALID_PRIORITY p \<longleftrightarrow> p = 0 \<or> p = 1 \<or> p = 2 \<or> p = 3"
proof -
  have "unat p \<le> 3 \<longleftrightarrow>
          unat p = unat (0 :: uint32_t) \<or> unat p = unat (1 :: uint32_t) \<or>
          unat p = unat (2 :: uint32_t) \<or> unat p = unat (3 :: uint32_t)"
    by (simp; arith)
  also have "\<dots> \<longleftrightarrow> p = 0 \<or> p = 1 \<or> p = 2 \<or> p = 3"
    unfolding word_unat_eq_iff [symmetric] ..
  finally show ?thesis
    by (simp add: STM32_DMA_IS_VALID_PRIORITY_unat)
qed

text \<open>
  Claim C8. \<open>STM32_DMA_IS_VALID_PRIORITY\<close> holds for exactly the four levels 0, 1, 2 and
  3: for every priority \<open>p\<close> it is true if and only if \<open>p\<close> lies between 0 and 3. An
  allocation with a priority outside this range fails with \<open>InvalidPriority\<close>, and one with
  a priority inside it does not fail for that reason.
\<close>

theorem STM32_DMA_IS_VALID_PRIORITY_range:
  "(STM32_DMA_IS_VALID_PRIORITY p \<longleftrightarrow> 0 \<le> uint p \<and> uint p \<le> 3) \<and>
   (STM32_DMA_IS_VALID_PRIORITY p \<longleftrightarrow> p = 0 \<or> p = 1 \<or> p = 2 \<or> p = 3) \<and>
   (\<not> (0 \<le> uint p \<and> uint p \<le> 3) \<longrightarrow>
      dmaStreamAllocate streams p func param s = Inl InvalidPriority) \<and>
   (0 \<le> uint p \<and> uint p \<le> 3 \<longrightarrow>
      dmaStreamAllocate streams p func param s \<noteq> Inl InvalidPriority)"
proof -
  have u: "STM32_DMA_IS_VALID_PRIORITY p \<longleftrightarrow> 0 \<le> uint p \<and> uint p \<le> 3"
    by (simp add: STM32_DMA_IS_VALID_PRIORITY_def word_le_def)
  have a: "\<not> STM32_DMA_IS_VALID_PRIORITY p \<Longrightarrow>
             dmaStreamAllocate streams p func param s = Inl InvalidPriority"
    by (simp add: dmaStreamAllocate_def)
  have b: "STM32_DMA_IS_VALID_PRIORITY p \<Longrightarrow>
             dmaStreamAllocate streams p func param s \<noteq> Inl InvalidPriority"
    by (simp add: dmaStreamAllocate_def split: option.split)
  from u a b STM32_DMA_IS_VALID_PRIORITY_cases [of p] show ?thesis by blast
qed

text \<open>The theorem at priority 4, which is refused, and at priority 3, which is accepted.\<close>

theorem STM32_DMA_IS_VALID_PRIORITY_range_witness:
  "\<not> (0 \<le> uint (4 :: uint32_t) \<and> uint (4 :: uint32_t) \<le> 3) \<and>
   \<not> STM32_DMA_IS_VALID_PRIORITY 4 \<and>
   dmaStreamAllocate ex_streams 4 0x08001234 0x20000010 ex_machine = Inl InvalidPriority \<and>
   (0 \<le> uint (3 :: uint32_t) \<and> uint (3 :: uint32_t) \<le> 3) \<and>
   STM32_DMA_IS_VALID_PRIORITY 3 \<and>
   dmaStreamAllocate ex_streams 3 0x08001234 0x20000010 ex_machine \<noteq> Inl InvalidPriority"
proof -
  have o: "\<not> (0 \<le> uint (4 :: uint32_t) \<and> uint (4 :: uint32_t) \<le> 3)"
    by simp
  have i: "0 \<le> uint (3 :: uint32_t) \<and> uint (3 :: uint32_t) \<le> 3"
    by simp
  note T4 = STM32_DMA_IS_VALID_PRIORITY_range [of 4 ex_streams "0x08001234" "0x20000010" ex_machine]
  note T3 = STM32_DMA_IS_VALID_PRIORITY_range [of 3 ex_streams "0x08001234" "0x20000010" ex_machine]
  from T4 o have a4: "dmaStreamAllocate ex_streams 4 0x08001234 0x20000010 ex_machine = Inl InvalidPriority"
    by blast
  from T4 o have v4: "\<not> STM32_DMA_IS_VALID_PRIORITY 4"
    by blast
  from T3 i have a3: "dmaStreamAllocate ex_streams 3 0x08001234 0x20000010 ex_machine \<noteq> Inl InvalidPriority"
    by blast
  from T3 i have v3: "STM32_DMA_IS_VALID_PRIORITY 3"
    by blast
  from o v4 a4 i v3 a3 show ?thesis by blast
qed

section \<open>Panic and restart\<close>

lemma chSysHalt_never_returns: "chSysHalt reason s = None"
proof (cases "chSysHalt reason s")
  case None
  then show ?thesis .
next
  case (Some y)
  have False
  proof (rule chSysHalt.raw_induct [where P = "\<lambda>_ _ _. False", OF _ Some])
    fix halt :: "uint32_t \<Rightarrow> 'a \<Rightarrow> 'a option" and reason s y
    assume "\<And>reason s y. halt reason s = Some y \<Longrightarrow> False" and "halt reason s = Some y"
    then show False by blast
  qed
  then show ?thesis ..
qed

text \<open>
  Claim C9, as the code has it. For every error code \<open>CFE_PSP_Panic\<close> hands the code,
  uninterpreted, to the halt of the kernel and never returns. \<open>CFE_PSP_Restart\<close> does not
  look at the reset type, so its behaviour does not depend on it; it is not implemented
  and returns at once, leaving the system as it was.
\<close>

theorem CFE_PSP_hooks:
  "CFE_PSP_Panic ErrorCode s = None \<and>
   CFE_PSP_Restart reset_type s = Some s \<and>
   CFE_PSP_Restart reset_type s = CFE_PSP_Restart reset_type' s"
  by (simp add: CFE_PSP_Panic_def CFE_PSP_Restart_def chSysHalt_never_returns)

text \<open>Claim C9 as stated fails for \<open>CFE_PSP_Restart\<close>: the call returns.\<close>

theorem CFE_PSP_Restart_counterexample:
  "CFE_PSP_Restart 1 ex_machine \<noteq> None \<and> CFE_PSP_Restart 1 ex_machine = Some ex_machine"
  by (simp add: CFE_PSP_Restart_def)

end
